theory Spec2Isabelle
  imports Main "HOL-Library.Word"
begin

section \<open>JavaScript strings\<close>

text \<open>
  A JavaScript string is a sequence of 16-bit code units; \<open>s.length\<close> counts them and
  \<open>s[i]\<close> reads one. The model keeps that: a string is a list of \<open>16 word\<close>.
  \<open>js\<close> embeds an ASCII literal, one code unit per character.
\<close>

type_synonym jschar = "16 word"
type_synonym jsstring = "jschar list"

definition js :: "string \<Rightarrow> jsstring" where
  "js s = map of_char s"

definition LF :: jschar where "LF = 0x0A"
definition CR :: jschar where "CR = 0x0D"
definition QUOTE :: jschar where "QUOTE = 0x22"
definition COMMA :: jschar where "COMMA = 0x2C"

text \<open>
  \<open>String.prototype.trim\<close> strips WhiteSpace and LineTerminator code units from both
  ends: TAB, VT, FF, SP, NBSP, ZWNBSP, the Unicode space separators, and LF, CR, LS, PS.
\<close>

definition isWhiteSpace :: "jschar \<Rightarrow> bool" where
  "isWhiteSpace c \<longleftrightarrow>
     c = 0x09 \<or> c = 0x0A \<or> c = 0x0B \<or> c = 0x0C \<or> c = 0x0D \<or> c = 0x20 \<or> c = 0xA0 \<or>
     c = 0x1680 \<or> (0x2000 \<le> c \<and> c \<le> 0x200A) \<or> c = 0x2028 \<or> c = 0x2029 \<or>
     c = 0x202F \<or> c = 0x205F \<or> c = 0x3000 \<or> c = 0xFEFF"

definition trim :: "jsstring \<Rightarrow> jsstring" where
  "trim s = rev (dropWhile isWhiteSpace (rev (dropWhile isWhiteSpace s)))"

section \<open>Tabular preview parser (\<open>tryParseCSV\<close>)\<close>

datatype origin = CSV

record TablePreviewData =
  headers :: "jsstring list"
  rows :: "jsstring list list"
  origin :: origin

text \<open>
  \<open>text.split(/\r?\n/)\<close>: the text is cut at every LF, and at every CR immediately followed by
  LF; a CR alone stays in its line. The empty text gives one empty line. \<open>cur\<close> is the line
  read so far.
\<close>

fun splitLines :: "jsstring \<Rightarrow> jsstring \<Rightarrow> jsstring list" where
  "splitLines cur [] = [cur]"
| "splitLines cur (c # cs) =
     (if c = LF then cur # splitLines [] cs
      else (case cs of
              d # ds \<Rightarrow>
                if c = CR \<and> d = LF then cur # splitLines [] ds
                else splitLines (cur @ [c]) cs
            | [] \<Rightarrow> splitLines (cur @ [c]) cs))"

text \<open>\<open>lines = text.split(/\r?\n/).filter(l => l.trim().length > 0)\<close>\<close>

definition nonBlankLines :: "jsstring \<Rightarrow> jsstring list" where
  "nonBlankLines text = filter (\<lambda>l. length (trim l) > 0) (splitLines [] text)"

text \<open>\<open>commaDensity = lines.slice(0, 10).filter(l => l.includes(',')).length\<close>\<close>

definition commaDensity :: "jsstring list \<Rightarrow> nat" where
  "commaDensity lines = length (filter (\<lambda>l. COMMA \<in> set l) (take 10 lines))"

text \<open>
  The \<open>for\<close> loop of \<open>parseLine\<close>, on the code units still to read. A quote inside quote
  mode that is followed by a second quote emits one quote and skips both (\<open>i++\<close> twice);
  any other quote toggles \<open>inQuotes\<close>; a comma outside quote mode ends the field.
  After the loop the last field is pushed.
\<close>

fun parseLoop :: "jsstring \<Rightarrow> jsstring list \<Rightarrow> jsstring \<Rightarrow> bool \<Rightarrow> jsstring list" where
  "parseLoop [] out cur inQuotes = out @ [cur]"
| "parseLoop (ch # rest) out cur inQuotes =
     (if ch = QUOTE then
        (case rest of
           d # rest' \<Rightarrow>
             if inQuotes \<and> d = QUOTE then parseLoop rest' out (cur @ [QUOTE]) inQuotes
             else parseLoop rest out cur (\<not> inQuotes)
         | [] \<Rightarrow> parseLoop rest out cur (\<not> inQuotes))
      else if ch = COMMA \<and> \<not> inQuotes then parseLoop rest (out @ [cur]) [] inQuotes
      else parseLoop rest out (cur @ [ch]) inQuotes)"

definition parseLine :: "jsstring \<Rightarrow> jsstring list" where
  "parseLine line = map trim (parseLoop line [] [] False)"

text \<open>
  \<open>tryParseCSV(text, maxRows = 50, maxCols = 40)\<close>; \<open>None\<close> is the \<open>null\<close> result.
  Both call sites pass the text alone, so the limits are the defaults; they are counts,
  modelled as \<open>nat\<close>.
\<close>

definition tryParseCSV :: "jsstring \<Rightarrow> nat \<Rightarrow> nat \<Rightarrow> TablePreviewData option" where
  "tryParseCSV text maxRows maxCols =
     (let lines = nonBlankLines text in
      if length lines < 2 then None
      else if commaDensity lines < 2 then None
      else
        (let raw = map parseLine (take maxRows lines) in
         case raw of
           [] \<Rightarrow> None
         | hdrs # rest \<Rightarrow>
             (let colCount = min (length hdrs) maxCols;
                  rows = map (take colCount) rest
              in Some \<lparr>headers = take colCount hdrs, rows = rows, origin = CSV\<rparr>)))"

definition tryParseCSV_default :: "jsstring \<Rightarrow> TablePreviewData option" where
  "tryParseCSV_default text = tryParseCSV text 50 40"

section \<open>Upload progress (\<open>processFile\<close>)\<close>

text \<open>
  The \<open>progress\<close> state holds a JavaScript number. The code only ever stores a rounded
  percentage or, when a progress event has \<open>loaded = total = 0\<close>, the \<open>NaN\<close> that \<open>0 / 0\<close>
  gives. Every comparison with \<open>NaN\<close> is false.
\<close>

datatype jsnumber = NaN | Num nat

fun jsLe :: "jsnumber \<Rightarrow> jsnumber \<Rightarrow> bool" where
  "jsLe (Num a) (Num b) = (a \<le> b)"
| "jsLe _ _ = False"

fun isPct :: "jsnumber \<Rightarrow> bool" where
  "isPct (Num a) = (a \<le> 100)"
| "isPct NaN = False"




















text \<open>
  For the proofs: a list of reports is steady above \<open>p\<close> when each report is a
  percentage, none is below \<open>p\<close>, and the list never decreases.
\<close>

definition steady :: "jsnumber \<Rightarrow> jsnumber list \<Rightarrow> bool" where
  "steady p xs \<longleftrightarrow> list_all isPct xs \<and> list_all (jsLe p) xs \<and> sorted_wrt jsLe xs"

section \<open>Upload intake (\<open>processFile\<close>, \<open>reset\<close> and the Clear button)\<close>


















section \<open>Chat client (\<open>chatWithCopilot\<close>)\<close>

text \<open>
  A thrown value as the code reads it: \<open>err.name\<close> and \<open>err.message\<close>.
  \<open>new Error(msg)\<close> has the name \<open>Error\<close>. An aborted \<open>fetch\<close>, and an aborted read of
  a response body, reject with a \<open>DOMException\<close> named \<open>AbortError\<close>.
\<close>

record jserror =
  errName :: jsstring
  errMessage :: jsstring

definition Error :: "jsstring \<Rightarrow> jserror" where
  "Error msg = \<lparr>errName = js ''Error'', errMessage = msg\<rparr>"

definition AbortError :: jserror where
  "AbortError = \<lparr>errName = js ''AbortError'', errMessage = js ''The operation was aborted.''\<rparr>"

definition URIError :: jserror where
  "URIError = \<lparr>errName = js ''URIError'', errMessage = js ''URI malformed''\<rparr>"

datatype 'a settled = Fulfilled 'a | Rejected jserror

text \<open>
  What the code reads of a \<open>Response\<close>, and of the parsed body: its \<open>response\<close> property
  (absent: \<open>None\<close>) and what \<open>JSON.stringify\<close> makes of it. The error body is read for
  its \<open>detail\<close> property only.
\<close>

record httpResponse =
  ok :: bool
  status :: nat

record chatBody =
  response :: "jsstring option"
  stringified :: jsstring

text \<open>\<open>json.response || JSON.stringify(json)\<close>: the empty string is falsy.\<close>

definition responseText :: "chatBody \<Rightarrow> jsstring" where
  "responseText j =
     (case response j of
        Some r \<Rightarrow> if r = [] then stringified j else r
      | None \<Rightarrow> stringified j)"

text \<open>The decimal digits of \<open>res.status\<close> in the template string.\<close>

function decimal :: "nat \<Rightarrow> jsstring" where
  "decimal n =
     (if n < 10 then [of_nat (48 + n)]
      else decimal (n div 10) @ [of_nat (48 + n mod 10)])"
  by pat_completeness auto
termination
  by (relation "measure (\<lambda>n. n)") auto

definition chatFailed :: "nat \<Rightarrow> jsstring" where
  "chatFailed st = js ''Chat failed ('' @ decimal st @ js '')''"

text \<open>\<open>'Request timed out \<dots> model may be overloaded.'\<close>, with its en dash (U+2013).\<close>

definition timedOutMessage :: jsstring where
  "timedOutMessage = js ''Request timed out '' @ [0x2013] @ js '' model may be overloaded.''"

text \<open>
  \<open>encodeURIComponent\<close> throws a \<open>URIError\<close> on a string with a lone surrogate, and
  only then.
\<close>

fun uriEncodable :: "jsstring \<Rightarrow> bool" where
  "uriEncodable [] = True"
| "uriEncodable (c # cs) =
     (if 0xD800 \<le> c \<and> c \<le> 0xDBFF then
        (case cs of
           d # ds \<Rightarrow> 0xDC00 \<le> d \<and> d \<le> 0xDFFF \<and> uriEncodable ds
         | [] \<Rightarrow> False)
      else if 0xDC00 \<le> c \<and> c \<le> 0xDFFF then False
      else uriEncodable cs)"

text \<open>
  One call of \<open>chatWithCopilot\<close>, between its suspensions: awaiting \<open>fetch\<close>, awaiting
  \<open>res.json()\<close> of a non-2xx response (inside \<open>try ... catch {}\<close>), awaiting \<open>res.json()\<close>
  of a 2xx response, or settled. \<open>timeoutArmed\<close> is the 120 s timer, \<open>aborted\<close> the state
  of \<open>controller.signal\<close>.
\<close>

datatype chatPhase =
    AwaitFetch
  | AwaitErrorBody nat
  | AwaitBody
  | Resolved jsstring
  | Threw jserror

record chatCall =
  phase :: chatPhase
  timeoutArmed :: bool
  aborted :: bool

datatype chatEvent =
    HardTimeout
  | FetchSettled "httpResponse settled"
  | ErrorBodySettled "jsstring option settled"
  | BodySettled "chatBody settled"

text \<open>The outer \<open>catch\<close>: an \<open>AbortError\<close> becomes the timed-out error, anything else is rethrown.\<close>

definition catchAbort :: "jserror \<Rightarrow> jserror" where
  "catchAbort err = (if errName err = js ''AbortError'' then Error timedOutMessage else err)"

text \<open>The \<open>finally\<close>: \<open>clearTimeout(timeout)\<close> on every way out.\<close>

definition settle :: "chatCall \<Rightarrow> chatPhase \<Rightarrow> chatCall" where
  "settle c ph = c\<lparr>phase := ph, timeoutArmed := False\<rparr>"

text \<open>\<open>detail?.detail || `Chat failed (${res.status})`\<close>\<close>

definition errorDetail :: "jsstring option \<Rightarrow> nat \<Rightarrow> jsstring" where
  "errorDetail detail st =
     (case detail of
        Some d \<Rightarrow> if d = [] then chatFailed st else d
      | None \<Rightarrow> chatFailed st)"

text \<open>
  The continuation after each \<open>await\<close>. A rejected read of the error body is swallowed by
  the inner \<open>catch {}\<close> and leaves \<open>detail\<close> undefined. An event that no \<open>await\<close> of the
  current phase waits for changes nothing.
\<close>

fun chatResume :: "chatCall \<Rightarrow> chatEvent \<Rightarrow> chatCall" where
  "chatResume c (FetchSettled r) =
     (case phase c of
        AwaitFetch \<Rightarrow>
          (case r of
             Fulfilled res \<Rightarrow>
               if ok res then c\<lparr>phase := AwaitBody\<rparr>
               else c\<lparr>phase := AwaitErrorBody (status res)\<rparr>
           | Rejected err \<Rightarrow> settle c (Threw (catchAbort err)))
      | _ \<Rightarrow> c)"
| "chatResume c (ErrorBodySettled r) =
     (case phase c of
        AwaitErrorBody st \<Rightarrow>
          (let detail = (case r of Fulfilled d \<Rightarrow> d | Rejected _ \<Rightarrow> None)
           in settle c (Threw (catchAbort (Error (errorDetail detail st)))))
      | _ \<Rightarrow> c)"
| "chatResume c (BodySettled r) =
     (case phase c of
        AwaitBody \<Rightarrow>
          (case r of
             Fulfilled j \<Rightarrow> settle c (Resolved (responseText j))
           | Rejected err \<Rightarrow> settle c (Threw (catchAbort err)))
      | _ \<Rightarrow> c)"
| "chatResume c HardTimeout = c"

text \<open>
  The 120 s timer calls \<open>controller.abort()\<close>. The signal was passed to \<open>fetch\<close>, so the
  operation in flight (the request, or the read of the response body) rejects with
  \<open>AbortError\<close>, and the call resumes with that rejection.
\<close>

fun abortedAwait :: "chatPhase \<Rightarrow> chatEvent option" where
  "abortedAwait AwaitFetch = Some (FetchSettled (Rejected AbortError))"
| "abortedAwait (AwaitErrorBody st) = Some (ErrorBodySettled (Rejected AbortError))"
| "abortedAwait AwaitBody = Some (BodySettled (Rejected AbortError))"
| "abortedAwait _ = None"

definition chatStep :: "chatCall \<Rightarrow> chatEvent \<Rightarrow> chatCall" where
  "chatStep c ev =
     (case ev of
        HardTimeout \<Rightarrow>
          if timeoutArmed c then
            (let c' = c\<lparr>aborted := True, timeoutArmed := False\<rparr> in
             case abortedAwait (phase c) of
               Some rejection \<Rightarrow> chatResume c' rejection
             | None \<Rightarrow> c')
          else c
      | _ \<Rightarrow> chatResume c ev)"

text \<open>
  The network requests issued, in order: the primary one carries the abort signal, the
  fallback one of \<open>handleSubmit\<close> does not; both put the prompt in the query string.
\<close>

datatype fetchCall = PrimaryFetch jsstring | FallbackFetch jsstring

text \<open>
  \<open>chatWithCopilot(prompt)\<close> up to its first suspension: the call and the requests it
  issued. A blank prompt throws before anything else; a prompt that cannot be encoded
  throws inside the \<open>try\<close>, after the timer was set and before \<open>fetch\<close>.
\<close>

definition chatWithCopilot :: "jsstring \<Rightarrow> chatCall \<times> fetchCall list" where
  "chatWithCopilot prompt =
     (if trim prompt = [] then
        (\<lparr>phase = Threw (Error (js ''Empty prompt'')), timeoutArmed = False, aborted = False\<rparr>, [])
      else if \<not> uriEncodable prompt then
        (settle \<lparr>phase = AwaitFetch, timeoutArmed = True, aborted = False\<rparr>
           (Threw (catchAbort URIError)), [])
      else
        (\<lparr>phase = AwaitFetch, timeoutArmed = True, aborted = False\<rparr>, [PrimaryFetch prompt]))"

section \<open>Chat panel (\<open>ChatbotPanel\<close>, \<open>handleSubmit\<close>)\<close>

datatype role = User | Assistant

text \<open>\<open>pending\<close> and \<open>error\<close> are optional in the source and only tested for truthiness.\<close>

record message =
  role :: role
  content :: jsstring
  pending :: bool
  error :: bool

text \<open>
  One running \<open>handleSubmit\<close>: its locals and what its closures captured.
  \<open>closureDelayedError\<close> is the \<open>delayedError\<close> of the render that created this
  \<open>handleSubmit\<close>, which is what the gate timer's callback reads. The stage is the primary
  attempt (a \<open>chatWithCopilot\<close> call) or the fallback request, which remembers \<open>primaryErr\<close>.
\<close>

datatype fallbackPhase = AwaitFallbackFetch | AwaitFallbackBody

datatype stage = Primary chatCall | Fallback jserror fallbackPhase

record submission =
  prompt :: jsstring
  stage :: stage
  canShowError :: bool
  delayTimerArmed :: bool
  closureDelayedError :: "jsstring option"

record chatbot =
  messages :: "message list"
  input :: jsstring
  isLoading :: bool
  delayedError :: "jsstring option"
  running :: "submission option"
  fetches :: "fetchCall list"

definition greeting :: message where
  "greeting =
     \<lparr>role = Assistant,
      content = js ''Hi! I'' @ [0x27] @
        js ''m your Privacy Copilot. Ask me about compliance, GDPR articles, or dataset risks.'',
      pending = False, error = False\<rparr>"

definition initChat :: chatbot where
  "initChat =
     \<lparr>messages = [greeting], input = [], isLoading = False, delayedError = None,
      running = None, fetches = []\<rparr>"

text \<open>The placeholder bubble, \<open>Thinking\<close> followed by an ellipsis (U+2026).\<close>

definition thinking :: message where
  "thinking =
     \<lparr>role = Assistant, content = js ''Thinking'' @ [0x2026], pending = True, error = False\<rparr>"

definition userMessage :: "jsstring \<Rightarrow> message" where
  "userMessage p = \<lparr>role = User, content = p, pending = False, error = False\<rparr>"

text \<open>\<open>showErrorBubble(msg)\<close>: every pending message becomes an error bubble.\<close>

definition showErrorBubble :: "jsstring \<Rightarrow> message list \<Rightarrow> message list" where
  "showErrorBubble msg ms =
     map (\<lambda>m. if pending m then m\<lparr>content := msg, pending := False, error := True\<rparr> else m) ms"

text \<open>
  The success path: \<open>clearTimeout(delayTimer)\<close>, every pending message gets
  \<open>responseText || 'No response text'\<close>, and the \<open>finally\<close> releases \<open>isLoading\<close>.
\<close>

definition shownText :: "jsstring \<Rightarrow> jsstring" where
  "shownText t = (if t = [] then js ''No response text'' else t)"

definition resolveBubble :: "jsstring \<Rightarrow> message list \<Rightarrow> message list" where
  "resolveBubble t ms =
     map (\<lambda>m. if pending m then m\<lparr>content := shownText t, pending := False\<rparr> else m) ms"

definition succeed :: "jsstring \<Rightarrow> chatbot \<Rightarrow> chatbot" where
  "succeed t s =
     s\<lparr>messages := resolveBubble t (messages s), isLoading := False, running := None\<rparr>"

text \<open>
  The outer \<open>catch\<close>: \<open>clearTimeout(delayTimer)\<close>, then the error is shown when
  \<open>canShowError\<close> is set and stored in \<open>delayedError\<close> when not; the \<open>finally\<close> releases
  \<open>isLoading\<close>.
\<close>

definition errMsg :: "jserror \<Rightarrow> jsstring" where
  "errMsg err = (if errMessage err = [] then js ''Unexpected error'' else errMessage err)"

definition fail :: "jserror \<Rightarrow> submission \<Rightarrow> chatbot \<Rightarrow> chatbot" where
  "fail err sub s =
     (if canShowError sub then
        s\<lparr>messages := showErrorBubble (errMsg err) (messages s),
          isLoading := False, running := None\<rparr>
      else
        s\<lparr>delayedError := Some (errMsg err), isLoading := False, running := None\<rparr>)"

text \<open>
  The \<open>catch (primaryErr)\<close>: the fallback request is issued, unless building its URL
  throws, which rethrows \<open>primaryErr\<close>.
\<close>

definition startFallback :: "jserror \<Rightarrow> submission \<Rightarrow> chatbot \<Rightarrow> chatbot" where
  "startFallback primaryErr sub s =
     (if uriEncodable (prompt sub) then
        s\<lparr>running := Some (sub\<lparr>stage := Fallback primaryErr AwaitFallbackFetch\<rparr>),
          fetches := fetches s @ [FallbackFetch (prompt sub)]\<rparr>
      else fail primaryErr sub s)"

text \<open>What follows \<open>await chatWithCopilot(prompt)\<close>, once the call has settled.\<close>

definition afterPrimary :: "chatCall \<Rightarrow> submission \<Rightarrow> chatbot \<Rightarrow> chatbot" where
  "afterPrimary c sub s =
     (case phase c of
        Resolved t \<Rightarrow> succeed t s
      | Threw err \<Rightarrow> startFallback err sub s
      | _ \<Rightarrow> s\<lparr>running := Some (sub\<lparr>stage := Primary c\<rparr>)\<rparr>)"

text \<open>
  \<open>handleSubmit\<close> up to its first suspension. A blank prompt, or a request in flight,
  returns at once. The gate timer is armed with \<open>canShowError = false\<close>, and its callback
  keeps the \<open>delayedError\<close> of this render, not the \<open>null\<close> just set.
\<close>

definition handleSubmit :: "chatbot \<Rightarrow> chatbot" where
  "handleSubmit s =
     (let p = trim (input s) in
      if p = [] \<or> isLoading s then s
      else
        (let (call, requests) = chatWithCopilot p;
             sub = \<lparr>prompt = p, stage = Primary call, canShowError = False,
                    delayTimerArmed = True, closureDelayedError = delayedError s\<rparr>;
             s1 = s\<lparr>input := [], delayedError := None,
                    messages := messages s @ [userMessage p, thinking],
                    isLoading := True, fetches := fetches s @ requests\<rparr>
         in afterPrimary call sub s1))"

text \<open>
  The gate timer's callback: \<open>canShowError = true; if (delayedError) showErrorBubble(delayedError)\<close>.
\<close>

definition delayTimerFires :: "submission \<Rightarrow> chatbot \<Rightarrow> chatbot" where
  "delayTimerFires sub s =
     (let s1 = s\<lparr>running := Some (sub\<lparr>canShowError := True, delayTimerArmed := False\<rparr>)\<rparr> in
      case closureDelayedError sub of
        Some d \<Rightarrow> if d = [] then s1 else s1\<lparr>messages := showErrorBubble d (messages s1)\<rparr>
      | None \<Rightarrow> s1)"

text \<open>
  The events of the panel: typing, submitting the form, the gate timer, the events of the
  primary call, and the two suspensions of the fallback request (\<open>fetch\<close>, then
  \<open>res.json()\<close> when \<open>res.ok\<close>). Every failure of the fallback rethrows \<open>primaryErr\<close>.
\<close>

datatype chatbotEvent =
    SetInput jsstring
  | Submit
  | DelayTimer
  | Net chatEvent
  | FallbackFetchSettled "httpResponse settled"
  | FallbackBodySettled "chatBody settled"

fun chatbotStep :: "chatbot \<Rightarrow> chatbotEvent \<Rightarrow> chatbot" where
  "chatbotStep s (SetInput v) = s\<lparr>input := v\<rparr>"
| "chatbotStep s Submit = handleSubmit s"
| "chatbotStep s DelayTimer =
     (case running s of
        Some sub \<Rightarrow> if delayTimerArmed sub then delayTimerFires sub s else s
      | None \<Rightarrow> s)"
| "chatbotStep s (Net ev) =
     (case running s of
        Some sub \<Rightarrow>
          (case stage sub of
             Primary c \<Rightarrow> afterPrimary (chatStep c ev) sub s
           | Fallback _ _ \<Rightarrow> s)
      | None \<Rightarrow> s)"
| "chatbotStep s (FallbackFetchSettled r) =
     (case running s of
        Some sub \<Rightarrow>
          (case stage sub of
             Fallback primaryErr AwaitFallbackFetch \<Rightarrow>
               (case r of
                  Fulfilled res \<Rightarrow>
                    if ok res then
                      s\<lparr>running := Some (sub\<lparr>stage := Fallback primaryErr AwaitFallbackBody\<rparr>)\<rparr>
                    else fail primaryErr sub s
                | Rejected _ \<Rightarrow> fail primaryErr sub s)
           | _ \<Rightarrow> s)
      | None \<Rightarrow> s)"
| "chatbotStep s (FallbackBodySettled r) =
     (case running s of
        Some sub \<Rightarrow>
          (case stage sub of
             Fallback primaryErr AwaitFallbackBody \<Rightarrow>
               (case r of
                  Fulfilled j \<Rightarrow> succeed (responseText j) s
                | Rejected _ \<Rightarrow> fail primaryErr sub s)
           | _ \<Rightarrow> s)
      | None \<Rightarrow> s)"

definition runChat :: "chatbot \<Rightarrow> chatbotEvent list \<Rightarrow> chatbot" where
  "runChat s evs = foldl chatbotStep s evs"


text \<open>The timers still armed: the gate timer and the 120 s timer of the primary call.\<close>

definition armedTimers :: "chatbot \<Rightarrow> nat" where
  "armedTimers s =
     (case running s of
        None \<Rightarrow> 0
      | Some sub \<Rightarrow>
          (if delayTimerArmed sub then 1 else 0) +
          (case stage sub of
             Primary c \<Rightarrow> if timeoutArmed c then 1 else 0
           | Fallback _ _ \<Rightarrow> 0))"

section \<open>Auxiliary notions for the proofs about the chat panel\<close>

text \<open>
  A message list evolves into another when each message is mapped to a successor that
  is the message itself unless it was pending, and messages are appended at the end.
\<close>

definition evolves :: "message list \<Rightarrow> message list \<Rightarrow> bool" where
  "evolves ms ms' \<longleftrightarrow>
     (\<exists>f extra. ms' = map f ms @ extra \<and> (\<forall>m. \<not> pending m \<longrightarrow> f m = m))"


section \<open>Properties of the tabular preview parser\<close>

lemma tryParseCSV_Some_shape:
  assumes "tryParseCSV text maxRows maxCols = Some t"
  shows "\<exists>hdrs rest. map parseLine (take maxRows (nonBlankLines text)) = hdrs # rest \<and>
           headers t = take (min (length hdrs) maxCols) hdrs \<and>
           rows t = map (take (min (length hdrs) maxCols)) rest"
  using assms
  by (auto simp: tryParseCSV_def Let_def split: if_splits list.splits)

text \<open>
  C3, as the code has it. A parsed preview has at most \<open>maxCols\<close> header cells and fewer
  than \<open>maxRows\<close> data rows, and data row \<open>i\<close> has as many cells as its line has fields,
  capped at the number of header cells: a row wider than the header is truncated to it,
  a row with fewer fields stays short. So \<open>rows[i].length \<le> headers.length\<close>, with
  equality exactly for the lines that have at least that many fields.
\<close>

theorem tryParseCSV_row_width:
  assumes "tryParseCSV text maxRows maxCols = Some t"
  shows "length (headers t) \<le> maxCols \<and>
         length (rows t) < maxRows \<and>
         (\<forall>i < length (rows t).
            length (rows t ! i) =
              min (length (parseLine (nonBlankLines text ! Suc i))) (length (headers t)))"
proof -
  from tryParseCSV_Some_shape [OF assms] obtain hdrs rest where
    raw: "map parseLine (take maxRows (nonBlankLines text)) = hdrs # rest" and
    h: "headers t = take (min (length hdrs) maxCols) hdrs" and
    r: "rows t = map (take (min (length hdrs) maxCols)) rest"
    by (elim exE conjE)
  have lh: "length (headers t) = min (length hdrs) maxCols"
    using h by simp
  have len: "length (take maxRows (nonBlankLines text)) = Suc (length rest)"
    using arg_cong [OF raw, of length] by simp
  have nth: "rest ! i = parseLine (nonBlankLines text ! Suc i)" if "i < length rest" for i
  proof -
    have "rest ! i = (hdrs # rest) ! Suc i" by simp
    also have "\<dots> = map parseLine (take maxRows (nonBlankLines text)) ! Suc i"
      by (simp only: raw)
    also have "\<dots> = parseLine (take maxRows (nonBlankLines text) ! Suc i)"
      using that len by (intro nth_map) simp
    also have "\<dots> = parseLine (nonBlankLines text ! Suc i)"
      using that len by simp
    finally show ?thesis .
  qed
  have "length (rows t) < maxRows"
    using len r by simp
  moreover have "length (headers t) \<le> maxCols"
    using lh by simp
  moreover have "\<forall>i < length (rows t).
            length (rows t ! i) =
              min (length (parseLine (nonBlankLines text ! Suc i))) (length (headers t))"
    using r lh nth by (auto simp: min.commute)
  ultimately show ?thesis by blast
qed

theorem tryParseCSV_row_width_witness:
  "tryParseCSV (js ''a,b\<newline>1\<newline>c,d,e'') 50 40 =
     Some \<lparr>headers = [js ''a'', js ''b''], rows = [[js ''1''], [js ''c'', js ''d'']], origin = CSV\<rparr>
   \<and> length [js ''a'', js ''b''] \<le> (40::nat)
   \<and> length ([[js ''1''], [js ''c'', js ''d'']] ! 1) =
       min (length (parseLine (nonBlankLines (js ''a,b\<newline>1\<newline>c,d,e'') ! Suc 1)))
           (length [js ''a'', js ''b''])"
proof -
  have h: "tryParseCSV (js ''a,b\<newline>1\<newline>c,d,e'') 50 40 =
     Some \<lparr>headers = [js ''a'', js ''b''], rows = [[js ''1''], [js ''c'', js ''d'']], origin = CSV\<rparr>"
    by code_simp
  have r: "length ([[js ''1''], [js ''c'', js ''d'']] ! 1) =
       min (length (parseLine (nonBlankLines (js ''a,b\<newline>1\<newline>c,d,e'') ! Suc 1)))
           (length [js ''a'', js ''b''])"
    using tryParseCSV_row_width [OF h, THEN conjunct2, THEN conjunct2, rule_format, of 1]
    by simp
  show ?thesis
    using h r by simp
qed

text \<open>
  The equality \<open>rows[i].length = headers.length\<close> fails for a line with fewer fields than
  the header: in \<open>a,b / 1 / c,d\<close> the first data row has one cell under two headers.
\<close>

theorem tryParseCSV_short_row_counterexample:
  "tryParseCSV (js ''a,b\<newline>1\<newline>c,d'') 50 40 =
     Some \<lparr>headers = [js ''a'', js ''b''], rows = [[js ''1''], [js ''c'', js ''d'']], origin = CSV\<rparr>
   \<and> length ([[js ''1''], [js ''c'', js ''d'']] ! 0) \<noteq> length [js ''a'', js ''b'']"
  by code_simp

text \<open>
  C7. The parser returns \<open>null\<close> for every text with fewer than 2 non-blank lines, and for
  every text in which fewer than 2 of the first 10 retained (non-blank) lines contain a
  comma, whatever the limits.
\<close>

theorem tryParseCSV_not_tabular:
  assumes "length (nonBlankLines text) < 2 \<or> commaDensity (nonBlankLines text) < 2"
  shows "tryParseCSV text maxRows maxCols = None"
  using assms by (auto simp: tryParseCSV_def Let_def)

theorem tryParseCSV_not_tabular_witness:
  "length (nonBlankLines (js ''just one line, with a comma'')) < 2 \<and>
   tryParseCSV (js ''just one line, with a comma'') 50 40 = None \<and>
   commaDensity (nonBlankLines (js ''a,b\<newline>c\<newline>d'')) < 2 \<and>
   tryParseCSV (js ''a,b\<newline>c\<newline>d'') 50 40 = None"
proof -
  have h1: "length (nonBlankLines (js ''just one line, with a comma'')) < 2" by code_simp
  have h2: "commaDensity (nonBlankLines (js ''a,b\<newline>c\<newline>d'')) < 2" by code_simp
  show ?thesis
    using h1 h2 tryParseCSV_not_tabular [of "js ''just one line, with a comma''" 50 40]
      tryParseCSV_not_tabular [of "js ''a,b\<newline>c\<newline>d''" 50 40]
    by simp
qed

text \<open>
  C6. The three vectors: \<open>a,b / 1,2 / 3,4\<close> parses to headers \<open>a, b\<close> and rows
  \<open>1, 2\<close> and \<open>3, 4\<close>; a quoted field keeps its comma and loses its quotes; a doubled
  quote inside a quoted field is emitted once.
\<close>

theorem tryParseCSV_vectors:
  "tryParseCSV (js ''a,b\<newline>1,2\<newline>3,4'') 50 40 =
     Some \<lparr>headers = [js ''a'', js ''b''],
           rows = [[js ''1'', js ''2''], [js ''3'', js ''4'']], origin = CSV\<rparr>
   \<and> tryParseCSV (js ''a,b\<newline>\"1,1\",2'') 50 40 =
     Some \<lparr>headers = [js ''a'', js ''b''], rows = [[js ''1,1'', js ''2'']], origin = CSV\<rparr>
   \<and> parseLine (js ''\"He said \"\"hi\"\"\"'') = [js ''He said \"hi\"'']"
  by code_simp

section \<open>Properties of the upload progress\<close>

lemma jsLe_trans: "jsLe a b \<Longrightarrow> jsLe b c \<Longrightarrow> jsLe a c"
  by (cases a; cases b; cases c) auto










lemma steady_weaken: "steady q xs \<Longrightarrow> jsLe p q \<Longrightarrow> steady p xs"
  by (auto simp: steady_def list_all_iff intro: jsLe_trans)



















section \<open>Properties of the upload intake\<close>








section \<open>Properties of the chat client and the chat panel\<close>

lemmas chat_eval = runChat_def initChat_def handleSubmit_def chatWithCopilot_def afterPrimary_def
  startFallback_def fail_def succeed_def errMsg_def showErrorBubble_def resolveBubble_def shownText_def
  delayTimerFires_def chatStep_def settle_def catchAbort_def errorDetail_def chatFailed_def
  responseText_def Error_def AbortError_def URIError_def timedOutMessage_def userMessage_def
  thinking_def greeting_def armedTimers_def trim_def isWhiteSpace_def js_def Let_def

subsection \<open>Settled messages stay as they are\<close>


lemma evolves_append: "evolves ms (ms @ xs)"
  unfolding evolves_def by (rule exI [of _ "\<lambda>m. m"], rule exI [of _ xs]) simp
















subsection \<open>The state while a submission runs\<close>


















subsection \<open>Blank prompts\<close>

text \<open>
  C9. Submitting the form with an empty or whitespace-only input leaves the whole state
  as it is: no message is appended, no request is issued, nothing is armed. And
  \<open>chatWithCopilot\<close> itself, given such a prompt, throws \<open>Empty prompt\<close> before any request.
\<close>

theorem blank_prompt_rejected:
  assumes "trim (input s) = []"
  shows "chatbotStep s Submit = s \<and>
         messages (chatbotStep s Submit) = messages s \<and>
         fetches (chatbotStep s Submit) = fetches s \<and>
         snd (chatWithCopilot (input s)) = [] \<and>
         phase (fst (chatWithCopilot (input s))) = Threw (Error (js ''Empty prompt''))"
  using assms by (simp add: handleSubmit_def chatWithCopilot_def)

theorem blank_prompt_rejected_witness:
  "trim (input (initChat\<lparr>input := [0x20, 0x09, 0x3000]\<rparr>)) = [] \<and>
   chatbotStep (initChat\<lparr>input := [0x20, 0x09, 0x3000]\<rparr>) Submit
     = initChat\<lparr>input := [0x20, 0x09, 0x3000]\<rparr> \<and>
   snd (chatWithCopilot [0x20, 0x09, 0x3000]) = []"
proof -
  have h: "trim (input (initChat\<lparr>input := [0x20, 0x09, 0x3000]\<rparr>)) = []"
    by (simp add: trim_def isWhiteSpace_def)
  show ?thesis
    using h blank_prompt_rejected [OF h] by simp
qed

subsection \<open>The hard timeout\<close>

lemma timeout_while_awaiting:
  assumes "timeoutArmed c" and "phase c = AwaitFetch \<or> phase c = AwaitBody"
  shows "chatStep c HardTimeout =
           c\<lparr>phase := Threw (Error timedOutMessage), timeoutArmed := False, aborted := True\<rparr>"
  using assms
  by (auto simp: chatStep_def settle_def catchAbort_def AbortError_def)

text \<open>
  C8 on the code. The server answers 500 and the 120 s timer fires while the error body is
  being read: the abort rejects \<open>res.json()\<close>, the inner \<open>catch {}\<close> swallows the
  \<open>AbortError\<close>, and the call rejects with \<open>Chat failed (500)\<close>, not with the timed-out
  message. (When the timer fires while the request or a 2xx body is awaited, the call
  does reject with the timed-out message: \<open>timeout_while_awaiting\<close>.)
\<close>

theorem timeout_during_error_body:
  "chatStep (chatStep (fst (chatWithCopilot (js ''hello'')))
               (FetchSettled (Fulfilled \<lparr>ok = False, status = 500\<rparr>)))
            HardTimeout
     = \<lparr>phase = Threw (Error (js ''Chat failed (500)'')), timeoutArmed = False, aborted = True\<rparr>
   \<and> js ''Chat failed (500)'' \<noteq> timedOutMessage"
  by (simp add: chat_eval)

subsection \<open>A failure before the gate timer\<close>

text \<open>
  C1 on the code. The primary and the fallback request both fail before the 4 s gate timer
  fires: the \<open>catch\<close> clears the gate timer and stores the error in \<open>delayedError\<close>, which
  nobody reads any more. The placeholder bubble is still pending, \<open>isLoading\<close> is
  released, no timer is armed, and no timer or network event changes the state.
\<close>

theorem early_failure_stays_pending:
  "(let s = runChat initChat
       [SetInput (js ''hi''), Submit,
        Net (FetchSettled (Rejected \<lparr>errName = js ''TypeError'', errMessage = js ''Failed to fetch''\<rparr>)),
        FallbackFetchSettled (Rejected \<lparr>errName = js ''TypeError'', errMessage = js ''Failed to fetch''\<rparr>)]
    in s = \<lparr>messages = [greeting, userMessage (js ''hi''), thinking], input = [], isLoading = False,
            delayedError = Some (js ''Failed to fetch''), running = None,
            fetches = [PrimaryFetch (js ''hi''), FallbackFetch (js ''hi'')]\<rparr>
       \<and> pending (last (messages s))
       \<and> armedTimers s = 0
       \<and> chatbotStep s DelayTimer = s
       \<and> (\<forall>ev. chatbotStep s (Net ev) = s)
       \<and> (\<forall>r. chatbotStep s (FallbackFetchSettled r) = s)
       \<and> (\<forall>b. chatbotStep s (FallbackBodySettled b) = s))"
  by (simp add: chat_eval)

text \<open>
  C10 on the code. After such an early failure the form accepts a second prompt, and the
  list holds two pending assistant messages.
\<close>

theorem second_submit_two_pending:
  "messages (runChat initChat
     [SetInput (js ''hi''), Submit,
      Net (FetchSettled (Rejected \<lparr>errName = js ''TypeError'', errMessage = js ''Failed to fetch''\<rparr>)),
      FallbackFetchSettled (Rejected \<lparr>errName = js ''TypeError'', errMessage = js ''Failed to fetch''\<rparr>),
      SetInput (js ''again''), Submit])
     = [greeting, userMessage (js ''hi''), thinking, userMessage (js ''again''), thinking]
   \<and> length (filter pending
         [greeting, userMessage (js ''hi''), thinking, userMessage (js ''again''), thinking]) = 2"
  by (simp add: chat_eval)

end
